theory Spec2Isabelle
  imports Main
begin

section \<open>The data of api/download.go\<close>

text \<open>
  The package constants (lines 14-17). \<open>githubAPI\<close> is a format string with one
  \<open>%s\<close>; the handler only ever uses it through \<open>fmt.Sprintf(githubAPI, repoName)\<close>, so
  it is modelled as the function that fills the hole.
\<close>

definition homePage :: string where
  "homePage = ''https://github-latest-release.vercel.app''"

definition githubAPI :: "string \<Rightarrow> string" where
  "githubAPI repoName = ''https://api.github.com/repos/'' @ repoName @ ''/releases''"

text \<open>
  \<open>GitHubReleasesResp\<close> (lines 19-90). Of an asset the code reads \<open>Name\<close> and
  \<open>BrowserDownloadUrl\<close>, of a release \<open>PublishedAt\<close> and \<open>Assets\<close>. The other JSON
  fields are decoded and never read. A release is handed around whole (as a pointer), so
  every function below takes an arbitrary extension of the record: the fields that are
  not listed travel in the extension slot and two releases that agree on the listed
  fields can still be different releases.
\<close>

record Asset =
  Name :: string
  BrowserDownloadUrl :: string

record GitHubReleasesResp =
  PublishedAt :: string
  Assets :: "Asset list"

text \<open>
  A \<open>*GitHubReleasesResp\<close> is an \<open>option\<close>: \<open>None\<close> is the nil pointer. Reading a field
  through nil panics; the panic is a value of the model.
\<close>

datatype panic = NilPointerDereference

text \<open>An \<open>error\<close> made by \<open>errors.New\<close> is its message; \<open>nil\<close> is \<open>None\<close>.\<close>

type_synonym error = string

section \<open>AssertByName (lines 92-108)\<close>

text \<open>The \<open>for _, a := range r.Assets\<close> loop with the \<open>return\<close> after it.\<close>

fun AssertByName_range :: "Asset list \<Rightarrow> string \<Rightarrow> string \<times> error option" where
  "AssertByName_range [] name = ('''', Some ''not found'')"
| "AssertByName_range (a # as) name =
     (if Name a = name then (BrowserDownloadUrl a, None) else AssertByName_range as name)"

definition AssertByName ::
  "'a GitHubReleasesResp_scheme option \<Rightarrow> string \<Rightarrow> panic + string \<times> error option" where
  "AssertByName r name =
     (if length name = 0 then Inr ('''', Some ''release filename is empty'')
      else if r = None then Inr ('''', Some ''github api response is empty'')
      else (case r of
              None \<Rightarrow> Inl NilPointerDereference
            | Some rel \<Rightarrow>
                if length (Assets rel) = 0 then Inr ('''', Some ''asset list is empty'')
                else Inr (AssertByName_range (Assets rel) name)))"

section \<open>TimeStrToUnix (lines 126-135)\<close>

text \<open>
  \<open>time.Parse\<close> belongs to the Go library, not to the repository, so the parser is a
  parameter: \<open>parse s\<close> is \<open>Some u\<close> when \<open>time.Parse(time.RFC3339, s)\<close> succeeds with a
  time whose \<open>Unix()\<close> is \<open>u\<close>, and \<open>None\<close> when it returns an error. On an error the
  library returns the zero \<open>Time\<close> (January 1, year 1, 00:00:00 UTC) next to it; the code
  logs the error and goes on to \<open>t.Unix()\<close> of that zero value. \<open>Unix()\<close> is an
  \<open>int64\<close>; the code compares these numbers and never computes with them, so they are
  integers here.
\<close>

definition zeroTimeUnix :: int where
  "zeroTimeUnix = - 62135596800"

definition TimeStrToUnix :: "(string \<Rightarrow> int option) \<Rightarrow> string \<Rightarrow> int" where
  "TimeStrToUnix parse s =
     (if s = '''' then 0
      else (case parse s of None \<Rightarrow> zeroTimeUnix | Some u \<Rightarrow> u))"

section \<open>GetLatestRelease (lines 110-124)\<close>

text \<open>
  The loop \<open>for _, r := range resp\<close> with the running \<open>max\<close> (here \<open>mx\<close>, since
  \<open>max\<close> is a function of HOL). Both \<open>r.PublishedAt\<close> and \<open>max.PublishedAt\<close> read
  through a pointer.
\<close>

fun GetLatestRelease_range ::
  "(string \<Rightarrow> int option) \<Rightarrow> 'a GitHubReleasesResp_scheme option \<Rightarrow>
   'a GitHubReleasesResp_scheme option list \<Rightarrow> panic + 'a GitHubReleasesResp_scheme option" where
  "GetLatestRelease_range parse mx [] = Inr mx"
| "GetLatestRelease_range parse mx (r # rs) =
     (case r of
        None \<Rightarrow> Inl NilPointerDereference
      | Some r' \<Rightarrow>
          (case mx of
             None \<Rightarrow> Inl NilPointerDereference
           | Some mx' \<Rightarrow>
               if TimeStrToUnix parse (PublishedAt r') > TimeStrToUnix parse (PublishedAt mx')
               then GetLatestRelease_range parse r rs
               else GetLatestRelease_range parse mx rs))"

definition GetLatestRelease ::
  "(string \<Rightarrow> int option) \<Rightarrow> 'a GitHubReleasesResp_scheme option list \<Rightarrow>
   panic + 'a GitHubReleasesResp_scheme option" where
  "GetLatestRelease parse resp =
     (if length resp = 0 then Inr None
      else if length resp = 1 then Inr (resp ! 0)
      else GetLatestRelease_range parse (resp ! 0) resp)"

section \<open>The handler (lines 137-203)\<close>

datatype json = JInt int | JString string

definition NewResp :: "int \<Rightarrow> string \<Rightarrow> (string \<rightharpoonup> json)" where
  "NewResp code msg = [''code'' \<mapsto> JInt code, ''msg'' \<mapsto> JString msg]"

text \<open>
  What the handler does to its \<open>ResponseWriter\<close>; every path does one thing at most.
  \<open>Body d\<close>: the JSON encoding of \<open>d\<close> is written (status 200).
  \<open>Redirect url code\<close>: the call \<open>http.Redirect(w, r, url, code)\<close>.
  \<open>Status n\<close>: \<open>w.WriteHeader(n)\<close> and no body (the header set after it comes too late).
  \<open>Silent\<close>: the handler returns without touching the writer.
  \<open>Panicked p\<close>: the handler does not return.
\<close>

datatype response =
    Body "string \<rightharpoonup> json"
  | Redirect string nat
  | Status nat
  | Silent
  | Panicked panic

definition WriteJson :: "(string \<rightharpoonup> json) \<Rightarrow> response" where
  "WriteJson data = Body data"

text \<open>
  The request: its method and its parsed query, the pairs in the order of the URL.
  \<open>Get\<close> is \<open>url.Values.Get\<close>: the first value of the key, the empty string when the
  key is absent.
\<close>

record Request =
  Method :: string
  Query :: "(string \<times> string) list"

definition Get :: "(string \<times> string) list \<Rightarrow> string \<Rightarrow> string" where
  "Get q key = (case map_of q key of None \<Rightarrow> '''' | Some v \<Rightarrow> v)"

text \<open>
  \<open>strings.Split(s, sep)\<close> for a separator of one byte, which is how the handler calls
  it: the pieces of \<open>s\<close> between the separators, empty pieces included.
\<close>

fun Split :: "string \<Rightarrow> char \<Rightarrow> string list" where
  "Split [] sep = [[]]"
| "Split (c # s) sep =
     (if c = sep then [] # Split s sep
      else (case Split s sep of [] \<Rightarrow> [[c]] | p # ps \<Rightarrow> (c # p) # ps))"

text \<open>
  The upstream API is outside the program: what \<open>http.NewRequest\<close>, \<open>client.Do\<close>,
  \<open>ioutil.ReadAll\<close> and \<open>json.Unmarshal\<close> give for an API address is a parameter of the
  handler. The four failures are the four early returns of lines 166-185; \<open>Decoded\<close>
  carries the decoded \<open>[]*GitHubReleasesResp\<close>.
\<close>

datatype 'r upstream =
    NewRequestError
  | DoError
  | ReadAllError
  | UnmarshalError
  | Decoded "'r option list"

text \<open>
  The handler returns what it did to the writer and the addresses it called
  (\<open>client.Do\<close>), in order.
\<close>

record outcome =
  response :: response
  calls :: "string list"

definition DownloadLatestGithubRelease ::
  "(string \<Rightarrow> int option) \<Rightarrow> (string \<Rightarrow> 'a GitHubReleasesResp_scheme upstream) \<Rightarrow>
   Request \<Rightarrow> outcome" where
  "DownloadLatestGithubRelease parse github r =
     (if Method r = ''GET'' then
        (let repoName = Get (Query r) ''repo'' in
         if repoName = '''' then
           \<lparr>response = WriteJson (NewResp (- 1)
              (''please provide repo name, for more detail, visit: '' @ homePage)),
            calls = []\<rparr>
         else if length (Split repoName CHR ''/'') \<noteq> 2 then
           \<lparr>response = WriteJson (NewResp (- 1)
              (''please check your repo name('' @ repoName @
               ''), for more detail, visit: '' @ homePage)),
            calls = []\<rparr>
         else
           (let api = githubAPI repoName in
            case github api of
              NewRequestError \<Rightarrow> \<lparr>response = Silent, calls = []\<rparr>
            | DoError \<Rightarrow> \<lparr>response = Silent, calls = [api]\<rparr>
            | ReadAllError \<Rightarrow> \<lparr>response = Silent, calls = [api]\<rparr>
            | UnmarshalError \<Rightarrow> \<lparr>response = Silent, calls = [api]\<rparr>
            | Decoded respStruct \<Rightarrow>
                (case GetLatestRelease parse respStruct of
                   Inl p \<Rightarrow> \<lparr>response = Panicked p, calls = [api]\<rparr>
                 | Inr ret \<Rightarrow>
                     if ret = None then
                       \<lparr>response = WriteJson (NewResp (- 1)
                          (''repo: '' @ repoName @ '' has no release jet'')),
                        calls = [api]\<rparr>
                     else
                       (case AssertByName ret (Get (Query r) ''name'') of
                          Inl p \<Rightarrow> \<lparr>response = Panicked p, calls = [api]\<rparr>
                        | Inr (downloadURL, err) \<Rightarrow>
                            (case err of
                               Some e \<Rightarrow>
                                 \<lparr>response = WriteJson (NewResp (- 1)
                                    (''get repo: '' @ repoName @ '''s asset err: '' @ e)),
                                  calls = [api]\<rparr>
                             | None \<Rightarrow>
                                 \<lparr>response = Redirect downloadURL 307, calls = [api]\<rparr>)))))
      else \<lparr>response = Status 405, calls = []\<rparr>)"

section \<open>A concrete parser, for evaluating the functions on examples\<close>

text \<open>
  A parser for the timestamps of the strict RFC 3339 profile only:
  \<open>YYYY-MM-DDTHH:MM:SS\<close>, an optional fraction of a second after a dot, then \<open>Z\<close> or
  an offset \<open>+HH:MM\<close> / \<open>-HH:MM\<close>; every number is checked against its range (the day
  against the month and the leap year). The result is the Unix time in seconds.
  Everything else is rejected. It is stricter than the Go library, which also accepts a
  comma before the fraction, an hour of one digit and offsets up to 24:00 and :60; on
  the strict profile the two agree. No theorem about the program depends on this parser:
  those hold for every \<open>parse\<close>. It instantiates them at timestamps of the strict profile
  and at a string that is no timestamp at all.
\<close>

definition isDigit :: "char \<Rightarrow> bool" where
  "isDigit c \<longleftrightarrow> 48 \<le> (of_char c :: nat) \<and> (of_char c :: nat) \<le> 57"

fun atoi :: "nat \<Rightarrow> string \<Rightarrow> nat option" where
  "atoi x [] = Some x"
| "atoi x (c # cs) = (if isDigit c then atoi (x * 10 + (of_char c - 48)) cs else None)"

definition parseUint :: "string \<Rightarrow> nat \<Rightarrow> nat \<Rightarrow> nat option" where
  "parseUint s lo hi =
     (case atoi 0 s of
        None \<Rightarrow> None
      | Some x \<Rightarrow> if x < lo \<or> hi < x then None else Some x)"

definition slice :: "string \<Rightarrow> nat \<Rightarrow> nat \<Rightarrow> string" where
  "slice s i j = take (j - i) (drop i s)"

definition isLeap :: "nat \<Rightarrow> bool" where
  "isLeap y \<longleftrightarrow> y mod 4 = 0 \<and> (y mod 100 \<noteq> 0 \<or> y mod 400 = 0)"

definition daysIn :: "nat \<Rightarrow> nat \<Rightarrow> nat" where
  "daysIn m y =
     (if m = 2 then (if isLeap y then 29 else 28)
      else if m = 4 \<or> m = 6 \<or> m = 9 \<or> m = 11 then 30 else 31)"

text \<open>Days from 1970-01-01 to the given day of the proleptic Gregorian calendar.\<close>

definition daysFromEpoch :: "int \<Rightarrow> int \<Rightarrow> int \<Rightarrow> int" where
  "daysFromEpoch y m d =
     (let y' = (if m \<le> 2 then y - 1 else y);
          era = y' div 400;
          yoe = y' - era * 400;
          doy = (153 * (if m > 2 then m - 3 else m + 9) + 2) div 5 + d - 1;
          doe = yoe * 365 + yoe div 4 - yoe div 100 + doy
      in era * 146097 + doe - 719468)"

definition unixDate :: "nat \<Rightarrow> nat \<Rightarrow> nat \<Rightarrow> nat \<Rightarrow> nat \<Rightarrow> nat \<Rightarrow> int" where
  "unixDate year month day hour minute sec =
     daysFromEpoch (int year) (int month) (int day) * 86400
       + int hour * 3600 + int minute * 60 + int sec"

definition skipFraction :: "string \<Rightarrow> string" where
  "skipFraction s =
     (case s of
        c # d # rest \<Rightarrow> if c = CHR ''.'' \<and> isDigit d then dropWhile isDigit rest else s
      | _ \<Rightarrow> s)"

definition parseZone :: "string \<Rightarrow> int option" where
  "parseZone s =
     (if s = ''Z'' then Some 0
      else if length s \<noteq> 6 then None
      else (case parseUint (slice s 1 3) 0 23 of
              None \<Rightarrow> None
            | Some hr \<Rightarrow>
                (case parseUint (slice s 4 6) 0 59 of
                   None \<Rightarrow> None
                 | Some mm \<Rightarrow>
                     if (s ! 0 = CHR ''-'' \<or> s ! 0 = CHR ''+'') \<and> s ! 3 = CHR '':''
                     then Some (if s ! 0 = CHR ''-'' then - int ((hr * 60 + mm) * 60)
                                else int ((hr * 60 + mm) * 60))
                     else None)))"

definition parseRFC3339 :: "string \<Rightarrow> int option" where
  "parseRFC3339 s =
     (if length s < 19 then None
      else if \<not> (s ! 4 = CHR ''-'' \<and> s ! 7 = CHR ''-'' \<and> s ! 10 = CHR ''T'' \<and>
                 s ! 13 = CHR '':'' \<and> s ! 16 = CHR '':'') then None
      else (case parseUint (slice s 0 4) 0 9999 of None \<Rightarrow> None | Some year \<Rightarrow>
           (case parseUint (slice s 5 7) 1 12 of None \<Rightarrow> None | Some month \<Rightarrow>
           (case parseUint (slice s 8 10) 1 (daysIn month year) of None \<Rightarrow> None | Some day \<Rightarrow>
           (case parseUint (slice s 11 13) 0 23 of None \<Rightarrow> None | Some hour \<Rightarrow>
           (case parseUint (slice s 14 16) 0 59 of None \<Rightarrow> None | Some minute \<Rightarrow>
           (case parseUint (slice s 17 19) 0 59 of None \<Rightarrow> None | Some sec \<Rightarrow>
           (case parseZone (skipFraction (drop 19 s)) of None \<Rightarrow> None | Some zoneOffset \<Rightarrow>
              Some (unixDate year month day hour minute sec - zoneOffset)))))))))"

section \<open>Example data\<close>

text \<open>
  Releases and an upstream for the examples: two releases published at the same second
  that differ in their assets, an older one, a draft without a timestamp and one whose
  timestamp is not a timestamp. The upstream knows a repository with three releases, one
  with a single release without assets and one with no release; for any other address its
  answer is not a JSON array, so decoding fails.
\<close>

definition release2020 :: GitHubReleasesResp where
  "release2020 = \<lparr>PublishedAt = ''2020-01-01T00:00:00Z'', Assets = []\<rparr>"

definition release2023 :: GitHubReleasesResp where
  "release2023 =
     \<lparr>PublishedAt = ''2023-06-01T00:00:00Z'',
      Assets = [\<lparr>Name = ''App.zip'', BrowserDownloadUrl = ''https://x/upper/App.zip''\<rparr>,
                \<lparr>Name = ''app.zip'', BrowserDownloadUrl = ''https://x/app.zip''\<rparr>,
                \<lparr>Name = ''app.zip'', BrowserDownloadUrl = ''https://x/second/app.zip''\<rparr>]\<rparr>"

definition release2023b :: GitHubReleasesResp where
  "release2023b =
     \<lparr>PublishedAt = ''2023-06-01T00:00:00Z'',
      Assets = [\<lparr>Name = ''app.zip'', BrowserDownloadUrl = ''https://y/app.zip''\<rparr>]\<rparr>"

definition releaseDraft :: GitHubReleasesResp where
  "releaseDraft = \<lparr>PublishedAt = '''', Assets = []\<rparr>"

definition releaseGarbled :: GitHubReleasesResp where
  "releaseGarbled = \<lparr>PublishedAt = ''yesterday'', Assets = []\<rparr>"

definition exampleReleases :: "GitHubReleasesResp list" where
  "exampleReleases = [release2020, release2023, release2023b]"

definition exampleGithub :: "string \<Rightarrow> GitHubReleasesResp upstream" where
  "exampleGithub api =
     (if api = ''https://api.github.com/repos/d4x1/app/releases''
      then Decoded (map Some exampleReleases)
      else if api = ''https://api.github.com/repos/d4x1/old/releases''
      then Decoded [Some release2020]
      else if api = ''https://api.github.com/repos/d4x1/none/releases''
      then Decoded []
      else UnmarshalError)"

text \<open>A second upstream, which agrees with the first on one repository only.\<close>

definition otherGithub :: "string \<Rightarrow> GitHubReleasesResp upstream" where
  "otherGithub api =
     (if api = ''https://api.github.com/repos/d4x1/app/releases''
      then Decoded (map Some exampleReleases)
      else DoError)"

definition exampleRequest :: "string \<Rightarrow> string \<Rightarrow> Request" where
  "exampleRequest repo name = \<lparr>Method = ''GET'', Query = [(''repo'', repo), (''name'', name)]\<rparr>"

text \<open>
  A request for the same repository and asset with the parameters in another order, one
  parameter more and \<open>repo\<close> given twice.
\<close>

definition otherRequest :: Request where
  "otherRequest =
     \<lparr>Method = ''GET'',
      Query = [(''name'', ''app.zip''), (''ref'', ''mail''), (''repo'', ''d4x1/app''),
               (''repo'', ''d4x1/none'')]\<rparr>"

section \<open>Auxiliary facts\<close>

lemma NewResp_eq_iff: "NewResp c m = NewResp c' m' \<longleftrightarrow> c = c' \<and> m = m'"
proof
  assume eq: "NewResp c m = NewResp c' m'"
  have "NewResp c m ''msg'' = NewResp c' m' ''msg''" using eq by simp
  then have 1: "m = m'" by (simp add: NewResp_def)
  have "NewResp c m ''code'' = NewResp c' m' ''code''" using eq by simp
  then have 2: "c = c'" by (simp add: NewResp_def)
  from 1 2 show "c = c' \<and> m = m'" by simp
next
  assume "c = c' \<and> m = m'"
  then show "NewResp c m = NewResp c' m'" by simp
qed

lemma Split_not_Nil: "Split s c \<noteq> []"
  by (induction s) (auto split: list.splits)

text \<open>One piece more than there are separators.\<close>

lemma Split_length: "length (Split s c) = Suc (count_list s c)"
  by (induction s) (auto split: list.splits simp: Split_not_Nil)

text \<open>Two pieces: exactly one separator.\<close>

lemma Split_one_slash: "length (Split s CHR ''/'') = 2 \<longleftrightarrow> count_list s CHR ''/'' = 1"
  by (simp add: Split_length)

text \<open>\<open>Get\<close> on a key that is present.\<close>

lemma Get_map_of: "map_of q key = Some v \<Longrightarrow> Get q key = v"
  by (simp add: Get_def)

lemma AssertByName_range_find:
  "AssertByName_range as name =
     (case find (\<lambda>a. Name a = name) as of
        None \<Rightarrow> ('''', Some ''not found'')
      | Some a \<Rightarrow> (BrowserDownloadUrl a, None))"
  by (induction as) auto

text \<open>The timestamps of the examples.\<close>

lemma parse_2020: "parseRFC3339 ''2020-01-01T00:00:00Z'' = Some 1577836800"
  by code_simp

lemma parse_2023: "parseRFC3339 ''2023-06-01T00:00:00Z'' = Some 1685577600"
  by code_simp

lemma parse_yesterday: "parseRFC3339 ''yesterday'' = None"
  by (simp add: parseRFC3339_def)

text \<open>
  The zero \<open>Time\<close> of Go is January 1 of year 1, 00:00:00 UTC: \<open>zeroTimeUnix\<close> is its
  Unix time.
\<close>

lemma zeroTimeUnix_date: "unixDate 1 1 1 0 0 0 = zeroTimeUnix"
  by (simp add: unixDate_def daysFromEpoch_def zeroTimeUnix_def)

lemma TimeStrToUnix_examples:
  "TimeStrToUnix parseRFC3339 (PublishedAt release2020) = 1577836800"
  "TimeStrToUnix parseRFC3339 (PublishedAt release2023) = 1685577600"
  "TimeStrToUnix parseRFC3339 (PublishedAt release2023b) = 1685577600"
  "TimeStrToUnix parseRFC3339 (PublishedAt releaseDraft) = 0"
  "TimeStrToUnix parseRFC3339 (PublishedAt releaseGarbled) = - 62135596800"
  by (simp_all add: TimeStrToUnix_def release2020_def release2023_def release2023b_def
      releaseDraft_def releaseGarbled_def parse_2020 parse_2023 parse_yesterday
      zeroTimeUnix_def)

subsection \<open>The loop of GetLatestRelease\<close>

text \<open>
  Whatever the loop returns on a non-empty slice is a non-nil pointer, and it is the
  starting \<open>max\<close> or an element of the slice.
\<close>

lemma range_Inr:
  "GetLatestRelease_range parse mx rs = Inr p \<Longrightarrow> rs \<noteq> [] \<Longrightarrow>
   p \<noteq> None \<and> (p = mx \<or> p \<in> set rs)"
proof (induction rs arbitrary: mx)
  case Nil
  then show ?case by simp
next
  case (Cons r rs)
  show ?case
  proof (cases "rs = []")
    case True
    with Cons.prems show ?thesis by (auto split: option.splits if_splits)
  next
    case False
    with Cons.prems Cons.IH show ?thesis
      by (fastforce split: option.splits if_splits)
  qed
qed

text \<open>
  On a slice without nil the loop returns, and what it returns is the starting \<open>max\<close>
  when nothing in the slice is later than it, and otherwise the first of the latest
  elements of the slice.
\<close>

lemma range_Some:
  fixes xs :: "'a GitHubReleasesResp_scheme list" and parse :: "string \<Rightarrow> int option"
  defines "ts \<equiv> \<lambda>r::'a GitHubReleasesResp_scheme. TimeStrToUnix parse (PublishedAt r)"
  shows "\<exists>r. GetLatestRelease_range parse (Some m) (map Some xs) = Inr (Some r) \<and>
           ((r = m \<and> (\<forall>j<length xs. ts (xs ! j) \<le> ts m)) \<or>
            (\<exists>i<length xs. r = xs ! i \<and> ts m < ts (xs ! i) \<and>
               (\<forall>j<i. ts (xs ! j) < ts (xs ! i)) \<and>
               (\<forall>j<length xs. ts (xs ! j) \<le> ts (xs ! i))))"
proof (induction xs arbitrary: m)
  case Nil
  then show ?case by simp
next
  case (Cons x xs)
  show ?case
  proof (cases "ts x > ts m")
    case True
    from Cons.IH [of x] obtain r where
      run: "GetLatestRelease_range parse (Some x) (map Some xs) = Inr (Some r)" and
      alt: "(r = x \<and> (\<forall>j<length xs. ts (xs ! j) \<le> ts x)) \<or>
            (\<exists>i<length xs. r = xs ! i \<and> ts x < ts (xs ! i) \<and>
               (\<forall>j<i. ts (xs ! j) < ts (xs ! i)) \<and>
               (\<forall>j<length xs. ts (xs ! j) \<le> ts (xs ! i)))"
      by blast
    have step: "GetLatestRelease_range parse (Some m) (map Some (x # xs)) = Inr (Some r)"
      using True run by (simp add: ts_def)
    from alt show ?thesis
    proof
      assume a: "r = x \<and> (\<forall>j<length xs. ts (xs ! j) \<le> ts x)"
      have "\<forall>j<length (x # xs). ts ((x # xs) ! j) \<le> ts x"
        using a by (auto simp: nth_Cons split: nat.splits)
      with a True step show ?thesis
        by (intro exI [of _ r]) (auto intro!: exI [of _ 0])
    next
      assume "\<exists>i<length xs. r = xs ! i \<and> ts x < ts (xs ! i) \<and>
               (\<forall>j<i. ts (xs ! j) < ts (xs ! i)) \<and>
               (\<forall>j<length xs. ts (xs ! j) \<le> ts (xs ! i))"
      then obtain i where i: "i < length xs" "r = xs ! i" "ts x < ts (xs ! i)"
        "\<forall>j<i. ts (xs ! j) < ts (xs ! i)" "\<forall>j<length xs. ts (xs ! j) \<le> ts (xs ! i)"
        by blast
      have 1: "\<forall>j<Suc i. ts ((x # xs) ! j) < ts r"
        using i by (auto simp: nth_Cons split: nat.splits)
      have 2: "\<forall>j<length (x # xs). ts ((x # xs) ! j) \<le> ts r"
        using i by (auto simp: nth_Cons split: nat.splits)
      have 3: "ts m < ts r" using True i by simp
      have "Suc i < length (x # xs) \<and> r = (x # xs) ! Suc i" using i by simp
      with 1 2 3 step show ?thesis by blast
    qed
  next
    case False
    from Cons.IH [of m] obtain r where
      run: "GetLatestRelease_range parse (Some m) (map Some xs) = Inr (Some r)" and
      alt: "(r = m \<and> (\<forall>j<length xs. ts (xs ! j) \<le> ts m)) \<or>
            (\<exists>i<length xs. r = xs ! i \<and> ts m < ts (xs ! i) \<and>
               (\<forall>j<i. ts (xs ! j) < ts (xs ! i)) \<and>
               (\<forall>j<length xs. ts (xs ! j) \<le> ts (xs ! i)))"
      by blast
    have step: "GetLatestRelease_range parse (Some m) (map Some (x # xs)) = Inr (Some r)"
      using False run by (simp add: ts_def)
    from alt show ?thesis
    proof
      assume a: "r = m \<and> (\<forall>j<length xs. ts (xs ! j) \<le> ts m)"
      have "\<forall>j<length (x # xs). ts ((x # xs) ! j) \<le> ts m"
        using a False by (auto simp: nth_Cons split: nat.splits)
      with a step show ?thesis by blast
    next
      assume "\<exists>i<length xs. r = xs ! i \<and> ts m < ts (xs ! i) \<and>
               (\<forall>j<i. ts (xs ! j) < ts (xs ! i)) \<and>
               (\<forall>j<length xs. ts (xs ! j) \<le> ts (xs ! i))"
      then obtain i where i: "i < length xs" "r = xs ! i" "ts m < ts (xs ! i)"
        "\<forall>j<i. ts (xs ! j) < ts (xs ! i)" "\<forall>j<length xs. ts (xs ! j) \<le> ts (xs ! i)"
        by blast
      have 1: "\<forall>j<Suc i. ts ((x # xs) ! j) < ts r"
        using i False by (auto simp: nth_Cons split: nat.splits)
      have 2: "\<forall>j<length (x # xs). ts ((x # xs) ! j) \<le> ts r"
        using i False by (auto simp: nth_Cons split: nat.splits)
      have "Suc i < length (x # xs) \<and> r = (x # xs) ! Suc i \<and> ts m < ts r" using i by simp
      with 1 2 step show ?thesis by blast
    qed
  qed
qed

text \<open>
  \<open>GetLatestRelease\<close> on a non-empty slice without nil: the element at the first
  position that holds the greatest timestamp.
\<close>

lemma GetLatestRelease_index:
  fixes rs :: "'a GitHubReleasesResp_scheme list"
  assumes "rs \<noteq> []"
  shows "\<exists>i<length rs.
           GetLatestRelease parse (map Some rs) = Inr (Some (rs ! i)) \<and>
           (\<forall>j<length rs. TimeStrToUnix parse (PublishedAt (rs ! j))
                            \<le> TimeStrToUnix parse (PublishedAt (rs ! i))) \<and>
           (\<forall>j<i. TimeStrToUnix parse (PublishedAt (rs ! j))
                     < TimeStrToUnix parse (PublishedAt (rs ! i)))"
proof (cases "length rs = 1")
  case True
  then obtain x where "rs = [x]" by (cases rs) auto
  then show ?thesis by (simp add: GetLatestRelease_def)
next
  case False
  with assms obtain x xs where rs: "rs = x # xs" by (cases rs) auto
  from False assms have unf:
    "GetLatestRelease parse (map Some rs) = GetLatestRelease_range parse (Some x) (map Some rs)"
    by (simp add: GetLatestRelease_def rs)
  from range_Some [of parse x rs] obtain r where
    run: "GetLatestRelease_range parse (Some x) (map Some rs) = Inr (Some r)" and
    alt: "(r = x \<and> (\<forall>j<length rs. TimeStrToUnix parse (PublishedAt (rs ! j))
                        \<le> TimeStrToUnix parse (PublishedAt x))) \<or>
          (\<exists>i<length rs. r = rs ! i \<and>
             TimeStrToUnix parse (PublishedAt x) < TimeStrToUnix parse (PublishedAt (rs ! i)) \<and>
             (\<forall>j<i. TimeStrToUnix parse (PublishedAt (rs ! j))
                      < TimeStrToUnix parse (PublishedAt (rs ! i))) \<and>
             (\<forall>j<length rs. TimeStrToUnix parse (PublishedAt (rs ! j))
                      \<le> TimeStrToUnix parse (PublishedAt (rs ! i))))"
    by blast
  from alt show ?thesis
  proof
    assume a: "r = x \<and> (\<forall>j<length rs. TimeStrToUnix parse (PublishedAt (rs ! j))
                        \<le> TimeStrToUnix parse (PublishedAt x))"
    have "0 < length rs \<and> rs ! 0 = x" using rs by simp
    with a unf run show ?thesis by (intro exI [of _ 0]) auto
  next
    assume "\<exists>i<length rs. r = rs ! i \<and>
             TimeStrToUnix parse (PublishedAt x) < TimeStrToUnix parse (PublishedAt (rs ! i)) \<and>
             (\<forall>j<i. TimeStrToUnix parse (PublishedAt (rs ! j))
                      < TimeStrToUnix parse (PublishedAt (rs ! i))) \<and>
             (\<forall>j<length rs. TimeStrToUnix parse (PublishedAt (rs ! j))
                      \<le> TimeStrToUnix parse (PublishedAt (rs ! i)))"
    with unf run show ?thesis by auto
  qed
qed

subsection \<open>Timestamps that are no timestamps\<close>

lemma TimeStrToUnix_invalid:
  "TimeStrToUnix parse '''' = 0"
  "s \<noteq> '''' \<Longrightarrow> parse s = None \<Longrightarrow> TimeStrToUnix parse s = - 62135596800"
  by (simp_all add: TimeStrToUnix_def zeroTimeUnix_def)

lemma TimeStrToUnix_invalid_le:
  "s = '''' \<or> parse s = None \<Longrightarrow> TimeStrToUnix parse s \<le> 0"
  by (auto simp: TimeStrToUnix_def zeroTimeUnix_def)

subsection \<open>Nil in a slice of two or more\<close>

text \<open>
  The loop reads \<open>PublishedAt\<close> through every element, so a nil anywhere in a slice of
  two or more pointers ends in a panic.
\<close>

lemma range_nil_panics:
  "None \<in> set rs \<Longrightarrow> GetLatestRelease_range parse mx rs = Inl NilPointerDereference"
  by (induction rs arbitrary: mx) (auto split: option.splits)

lemma GetLatestRelease_nil_panics:
  assumes "2 \<le> length rs" and "None \<in> set rs"
  shows "GetLatestRelease parse rs = Inl NilPointerDereference"
proof -
  from assms(1) have "rs \<noteq> []" and "length rs \<noteq> 1" by auto
  then have "GetLatestRelease parse rs = GetLatestRelease_range parse (rs ! 0) rs"
    by (simp add: GetLatestRelease_def)
  with assms(2) show ?thesis by (simp add: range_nil_panics)
qed

subsection \<open>The handler past the checks of the request\<close>

text \<open>Only GET is served: any other method gets status 405 and nothing else happens.\<close>

lemma handler_other_method:
  "Method r \<noteq> ''GET'' \<Longrightarrow>
   DownloadLatestGithubRelease parse github r = \<lparr>response = Status 405, calls = []\<rparr>"
  by (simp add: DownloadLatestGithubRelease_def)

text \<open>A GET request whose \<open>repo\<close> passes both checks: what is left of the handler.\<close>

lemma handler_checked:
  assumes "Method r = ''GET''" and "Get (Query r) ''repo'' = repo" and "repo \<noteq> ''''"
    and "length (Split repo CHR ''/'') = 2"
  shows "DownloadLatestGithubRelease parse github r =
    (case github (githubAPI repo) of
       NewRequestError \<Rightarrow> \<lparr>response = Silent, calls = []\<rparr>
     | DoError \<Rightarrow> \<lparr>response = Silent, calls = [githubAPI repo]\<rparr>
     | ReadAllError \<Rightarrow> \<lparr>response = Silent, calls = [githubAPI repo]\<rparr>
     | UnmarshalError \<Rightarrow> \<lparr>response = Silent, calls = [githubAPI repo]\<rparr>
     | Decoded respStruct \<Rightarrow>
         (case GetLatestRelease parse respStruct of
            Inl p \<Rightarrow> \<lparr>response = Panicked p, calls = [githubAPI repo]\<rparr>
          | Inr ret \<Rightarrow>
              if ret = None then
                \<lparr>response = WriteJson (NewResp (- 1)
                   (''repo: '' @ repo @ '' has no release jet'')),
                 calls = [githubAPI repo]\<rparr>
              else
                (case AssertByName ret (Get (Query r) ''name'') of
                   Inl p \<Rightarrow> \<lparr>response = Panicked p, calls = [githubAPI repo]\<rparr>
                 | Inr (downloadURL, err) \<Rightarrow>
                     (case err of
                        Some e \<Rightarrow>
                          \<lparr>response = WriteJson (NewResp (- 1)
                             (''get repo: '' @ repo @ '''s asset err: '' @ e)),
                           calls = [githubAPI repo]\<rparr>
                      | None \<Rightarrow>
                          \<lparr>response = Redirect downloadURL 307, calls = [githubAPI repo]\<rparr>))))"
  using assms by (simp add: DownloadLatestGithubRelease_def Let_def)

lemma handler_checked_not_malformed:
  assumes "Method r = ''GET''" and "Get (Query r) ''repo'' = repo" and "repo \<noteq> ''''"
    and "length (Split repo CHR ''/'') = 2"
  shows "response (DownloadLatestGithubRelease parse github r) \<noteq>
           WriteJson (NewResp (- 1) (''please check your repo name('' @ repo @
             ''), for more detail, visit: '' @ homePage))"
  unfolding handler_checked [OF assms]
  by (auto simp: WriteJson_def NewResp_eq_iff
      split: upstream.splits sum.splits option.splits prod.splits)

lemma handler_checked_calls:
  assumes "Method r = ''GET''" and "Get (Query r) ''repo'' = repo" and "repo \<noteq> ''''"
    and "length (Split repo CHR ''/'') = 2" and "github (githubAPI repo) \<noteq> NewRequestError"
  shows "calls (DownloadLatestGithubRelease parse github r) = [githubAPI repo]"
  unfolding handler_checked [OF assms(1-4)] using assms(5)
  by (auto split: upstream.splits sum.splits option.splits prod.splits)

lemma example_github_unknown:
  "exampleGithub ''https://api.github.com/repos/owner//releases'' = UnmarshalError"
  "exampleGithub ''https://api.github.com/repos//name/releases'' = UnmarshalError"
  by (simp_all add: exampleGithub_def)

subsection \<open>AssertByName on a release and a non-empty name\<close>

lemma AssertByName_find:
  assumes "name \<noteq> ''''"
  shows "AssertByName (Some rel) name =
     (case find (\<lambda>a. Name a = name) (Assets rel) of
        Some a \<Rightarrow> Inr (BrowserDownloadUrl a, None)
      | None \<Rightarrow>
          Inr ('''', Some (if Assets rel = [] then ''asset list is empty'' else ''not found'')))"
  using assms by (simp add: AssertByName_def AssertByName_range_find split: option.splits)

subsection \<open>The examples, evaluated\<close>

lemma example_latest:
  "GetLatestRelease parseRFC3339 (map Some exampleReleases) = Inr (Some release2023)"
  "GetLatestRelease parseRFC3339 [Some release2020] = Inr (Some release2020)"
  by (simp_all add: GetLatestRelease_def exampleReleases_def TimeStrToUnix_examples)

lemma example_github:
  "exampleGithub ''https://api.github.com/repos/d4x1/app/releases'' = Decoded (map Some exampleReleases)"
  "exampleGithub ''https://api.github.com/repos/d4x1/old/releases'' = Decoded [Some release2020]"
  "exampleGithub ''https://api.github.com/repos/d4x1/none/releases'' = Decoded []"
  "otherGithub ''https://api.github.com/repos/d4x1/app/releases'' = Decoded (map Some exampleReleases)"
  "otherGithub ''https://api.github.com/repos/d4x1/none/releases'' = DoError"
  by (simp_all add: exampleGithub_def otherGithub_def)

lemma example_request:
  "Method (exampleRequest repo name) = ''GET''"
  "Get (Query (exampleRequest repo name)) ''repo'' = repo"
  "Get (Query (exampleRequest repo name)) ''name'' = name"
  "Method otherRequest = ''GET''"
  "Get (Query otherRequest) ''repo'' = ''d4x1/app''"
  "Get (Query otherRequest) ''name'' = ''app.zip''"
  by (simp_all add: exampleRequest_def otherRequest_def Get_def)

lemma example_split:
  "length (Split ''d4x1/app'' CHR ''/'') = 2"
  "length (Split ''d4x1/old'' CHR ''/'') = 2"
  "length (Split ''d4x1/none'' CHR ''/'') = 2"
  by simp_all

section \<open>Latest-release selection\<close>

text \<open>
  C1. For every non-empty list of releases (a slice of non-nil pointers to them),
  \<open>GetLatestRelease\<close> returns the release at the first position that holds the greatest
  timestamp, the timestamp being \<open>TimeStrToUnix\<close> of \<open>PublishedAt\<close>: no release of the
  list is later than the one returned, and every release before it in the list is
  strictly earlier. So a single latest release is returned, among several that tie for
  the latest the one seen first is returned, and a list of one release gives that
  release.
\<close>

theorem GetLatestRelease_first_latest:
  fixes rs :: "'a GitHubReleasesResp_scheme list"
  assumes "rs \<noteq> []"
  shows "(\<exists>i<length rs.
            GetLatestRelease parse (map Some rs) = Inr (Some (rs ! i)) \<and>
            (\<forall>j<length rs. TimeStrToUnix parse (PublishedAt (rs ! j))
                             \<le> TimeStrToUnix parse (PublishedAt (rs ! i))) \<and>
            (\<forall>j<i. TimeStrToUnix parse (PublishedAt (rs ! j))
                      < TimeStrToUnix parse (PublishedAt (rs ! i)))) \<and>
         (length rs = 1 \<longrightarrow> GetLatestRelease parse (map Some rs) = Inr (Some (rs ! 0)))"
proof
  show "length rs = 1 \<longrightarrow> GetLatestRelease parse (map Some rs) = Inr (Some (rs ! 0))"
    by (cases rs) (auto simp: GetLatestRelease_def)
next
  from assms show "\<exists>i<length rs.
            GetLatestRelease parse (map Some rs) = Inr (Some (rs ! i)) \<and>
            (\<forall>j<length rs. TimeStrToUnix parse (PublishedAt (rs ! j))
                             \<le> TimeStrToUnix parse (PublishedAt (rs ! i))) \<and>
            (\<forall>j<i. TimeStrToUnix parse (PublishedAt (rs ! j))
                      < TimeStrToUnix parse (PublishedAt (rs ! i)))"
    by (rule GetLatestRelease_index)
qed

text \<open>
  On the example list the second and the third release carry the same timestamp and
  differ in their assets; the second one is returned.
\<close>

theorem GetLatestRelease_first_latest_witness:
  "exampleReleases \<noteq> [] \<and>
   (\<exists>i<length exampleReleases.
      GetLatestRelease parseRFC3339 (map Some exampleReleases) = Inr (Some (exampleReleases ! i)) \<and>
      (\<forall>j<length exampleReleases.
          TimeStrToUnix parseRFC3339 (PublishedAt (exampleReleases ! j))
            \<le> TimeStrToUnix parseRFC3339 (PublishedAt (exampleReleases ! i))) \<and>
      (\<forall>j<i. TimeStrToUnix parseRFC3339 (PublishedAt (exampleReleases ! j))
                < TimeStrToUnix parseRFC3339 (PublishedAt (exampleReleases ! i)))) \<and>
   GetLatestRelease parseRFC3339 (map Some exampleReleases) = Inr (Some release2023) \<and>
   exampleReleases ! 1 = release2023 \<and> exampleReleases ! 2 = release2023b \<and>
   PublishedAt release2023 = PublishedAt release2023b \<and> release2023 \<noteq> release2023b \<and>
   GetLatestRelease parseRFC3339 (map Some [release2020]) = Inr (Some release2020)"
proof -
  have h: "exampleReleases \<noteq> []" by (simp add: exampleReleases_def)
  have h1: "[release2020] \<noteq> []" by simp
  have e: "GetLatestRelease parseRFC3339 (map Some exampleReleases) = Inr (Some release2023)"
    by (simp add: GetLatestRelease_def exampleReleases_def TimeStrToUnix_examples)
  have d: "exampleReleases ! 1 = release2023 \<and> exampleReleases ! 2 = release2023b \<and>
    PublishedAt release2023 = PublishedAt release2023b \<and> release2023 \<noteq> release2023b"
    by (simp add: exampleReleases_def release2023_def release2023b_def)
  from GetLatestRelease_first_latest [OF h, of parseRFC3339]
    GetLatestRelease_first_latest [OF h1, of parseRFC3339] h e d
  show ?thesis by simp
qed

text \<open>
  C2 (as amended). An empty \<open>PublishedAt\<close> gives Unix second 0. A non-empty one that
  does not parse gives \<open>Unix()\<close> of the zero \<open>Time\<close>, which is - 62135596800 (January 1
  of year 1), not 0. Either way the number is not positive: when the list holds a release
  with a positive timestamp, \<open>GetLatestRelease\<close> returns a release with a positive
  timestamp, and no release whose \<open>PublishedAt\<close> is empty or does not parse is the one
  returned.
\<close>

theorem TimeStrToUnix_invalid_loses:
  fixes rs :: "'a GitHubReleasesResp_scheme list"
  shows "TimeStrToUnix parse '''' = 0 \<and>
         (s \<noteq> '''' \<and> parse s = None \<longrightarrow> TimeStrToUnix parse s = - 62135596800) \<and>
         ((\<exists>v\<in>set rs. 0 < TimeStrToUnix parse (PublishedAt v)) \<longrightarrow>
            (\<exists>r\<in>set rs. GetLatestRelease parse (map Some rs) = Inr (Some r) \<and>
               0 < TimeStrToUnix parse (PublishedAt r) \<and>
               (\<forall>b\<in>set rs. PublishedAt b = '''' \<or> parse (PublishedAt b) = None \<longrightarrow> b \<noteq> r)))"
proof (intro conjI impI)
  show "TimeStrToUnix parse '''' = 0" by (rule TimeStrToUnix_invalid)
next
  assume "s \<noteq> '''' \<and> parse s = None"
  then show "TimeStrToUnix parse s = - 62135596800" by (simp add: TimeStrToUnix_invalid)
next
  assume "\<exists>v\<in>set rs. 0 < TimeStrToUnix parse (PublishedAt v)"
  then obtain v where v: "v \<in> set rs" "0 < TimeStrToUnix parse (PublishedAt v)" by blast
  then have ne: "rs \<noteq> []" by auto
  from GetLatestRelease_index [OF ne, of parse] obtain i where
    i: "i < length rs" "GetLatestRelease parse (map Some rs) = Inr (Some (rs ! i))" and
    top: "\<forall>j<length rs. TimeStrToUnix parse (PublishedAt (rs ! j))
                           \<le> TimeStrToUnix parse (PublishedAt (rs ! i))"
    by blast
  from v(1) obtain k where k: "k < length rs" "rs ! k = v" by (auto simp: in_set_conv_nth)
  with top have "TimeStrToUnix parse (PublishedAt v) \<le> TimeStrToUnix parse (PublishedAt (rs ! i))"
    by blast
  with v(2) have pos: "0 < TimeStrToUnix parse (PublishedAt (rs ! i))" by simp
  have "\<forall>b\<in>set rs. PublishedAt b = '''' \<or> parse (PublishedAt b) = None \<longrightarrow> b \<noteq> rs ! i"
  proof (intro ballI impI)
    fix b assume "b \<in> set rs" "PublishedAt b = '''' \<or> parse (PublishedAt b) = None"
    then have "TimeStrToUnix parse (PublishedAt b) \<le> 0" by (intro TimeStrToUnix_invalid_le)
    with pos show "b \<noteq> rs ! i" by auto
  qed
  with i pos show "\<exists>r\<in>set rs. GetLatestRelease parse (map Some rs) = Inr (Some r) \<and>
               0 < TimeStrToUnix parse (PublishedAt r) \<and>
               (\<forall>b\<in>set rs. PublishedAt b = '''' \<or> parse (PublishedAt b) = None \<longrightarrow> b \<noteq> r)"
    by (intro bexI [of _ "rs ! i"]) auto
qed

text \<open>
  The claim as it was stated fails on a timestamp that does not parse: the result is
  not 0.
\<close>

theorem TimeStrToUnix_unparsable_counterexample:
  "''yesterday'' \<noteq> '''' \<and> parseRFC3339 ''yesterday'' = None \<and>
   TimeStrToUnix parseRFC3339 ''yesterday'' = - 62135596800 \<and>
   TimeStrToUnix parseRFC3339 ''yesterday'' \<noteq> 0"
  by (simp add: TimeStrToUnix_def parse_yesterday zeroTimeUnix_def)

text \<open>
  A garbled timestamp and a draft against a release of June 2023; and the draft alone
  against it, the example of the specification.
\<close>

theorem TimeStrToUnix_invalid_loses_witness:
  "(''yesterday'' \<noteq> '''' \<and> parseRFC3339 ''yesterday'' = None) \<and>
   TimeStrToUnix parseRFC3339 ''yesterday'' = - 62135596800 \<and>
   TimeStrToUnix parseRFC3339 '''' = 0 \<and>
   (\<exists>v\<in>set [releaseGarbled, releaseDraft, release2023].
       0 < TimeStrToUnix parseRFC3339 (PublishedAt v)) \<and>
   (\<exists>r\<in>set [releaseGarbled, releaseDraft, release2023].
       GetLatestRelease parseRFC3339 (map Some [releaseGarbled, releaseDraft, release2023])
         = Inr (Some r) \<and>
       0 < TimeStrToUnix parseRFC3339 (PublishedAt r) \<and>
       releaseGarbled \<noteq> r \<and> releaseDraft \<noteq> r) \<and>
   GetLatestRelease parseRFC3339 (map Some [releaseDraft, release2023]) = Inr (Some release2023)"
proof -
  have a: "''yesterday'' \<noteq> '''' \<and> parseRFC3339 ''yesterday'' = None"
    by (simp add: parse_yesterday)
  have b: "\<exists>v\<in>set [releaseGarbled, releaseDraft, release2023].
       0 < TimeStrToUnix parseRFC3339 (PublishedAt v)"
    by (simp add: TimeStrToUnix_examples)
  have c: "PublishedAt releaseDraft = '''' \<and> parseRFC3339 (PublishedAt releaseGarbled) = None"
    by (simp add: releaseDraft_def releaseGarbled_def parse_yesterday)
  have d: "GetLatestRelease parseRFC3339 (map Some [releaseDraft, release2023]) = Inr (Some release2023)"
    by (simp add: GetLatestRelease_def TimeStrToUnix_examples)
  from TimeStrToUnix_invalid_loses
    [of parseRFC3339 "''yesterday''" "[releaseGarbled, releaseDraft, release2023]"] a b c d
  show ?thesis by auto
qed

text \<open>
  C9 (as amended). When \<open>GetLatestRelease\<close> returns, it returns nil exactly when the
  slice is empty or is the one-element slice holding nil, and for a non-empty slice the
  pointer returned is an element of the slice, never a made-up release. On a slice
  without nil it always returns.
\<close>

theorem GetLatestRelease_element:
  "(GetLatestRelease parse rs = Inr p \<longrightarrow>
      (p = None \<longleftrightarrow> rs = [] \<or> rs = [None]) \<and> (rs \<noteq> [] \<longrightarrow> p \<in> set rs)) \<and>
   ((\<forall>r\<in>set rs. r \<noteq> None) \<longrightarrow> (\<exists>p. GetLatestRelease parse rs = Inr p))"
proof (intro conjI impI)
  assume ret: "GetLatestRelease parse rs = Inr p"
  consider "rs = []" | x where "rs = [x]" | "2 \<le> length rs"
    by (cases rs rule: list.exhaust; cases "tl rs") (auto simp: Suc_le_eq)
  then have "(p = None \<longleftrightarrow> rs = [] \<or> rs = [None]) \<and> (rs \<noteq> [] \<longrightarrow> p \<in> set rs)"
  proof cases
    case 1
    with ret show ?thesis by (simp add: GetLatestRelease_def)
  next
    case 2
    with ret show ?thesis by (auto simp: GetLatestRelease_def)
  next
    case 3
    then have ne: "rs \<noteq> []" and many: "length rs \<noteq> 1" by auto
    from ne many ret have "GetLatestRelease_range parse (rs ! 0) rs = Inr p"
      by (simp add: GetLatestRelease_def)
    from range_Inr [OF this ne] have "p \<noteq> None \<and> (p = rs ! 0 \<or> p \<in> set rs)" .
    moreover have "rs ! 0 \<in> set rs" using ne by simp
    moreover have "rs \<noteq> [None]" using 3 by auto
    ultimately show ?thesis using ne by auto
  qed
  then show "p = None \<longleftrightarrow> rs = [] \<or> rs = [None]" and "rs \<noteq> [] \<Longrightarrow> p \<in> set rs"
    by blast+
next
  assume all: "\<forall>r\<in>set rs. r \<noteq> None"
  then obtain xs where xs: "rs = map Some xs"
    by (metis ex_map_conv not_None_eq)
  show "\<exists>p. GetLatestRelease parse rs = Inr p"
  proof (cases "xs = []")
    case True
    with xs show ?thesis by (simp add: GetLatestRelease_def)
  next
    case False
    from GetLatestRelease_index [OF False, of parse] xs show ?thesis by blast
  qed
qed

text \<open>
  The claim as it was stated, nil exactly for the empty slice, fails on the slice
  \<open>[nil]\<close> (the decoded JSON \<open>[null]\<close>): line 115 returns its only element.
\<close>

theorem GetLatestRelease_nil_counterexample:
  "\<not> (GetLatestRelease parseRFC3339 [None :: GitHubReleasesResp option] = Inr None
        \<longleftrightarrow> [None :: GitHubReleasesResp option] = [])"
  by (simp add: GetLatestRelease_def)

theorem GetLatestRelease_element_witness:
  "GetLatestRelease parseRFC3339 (map Some exampleReleases) = Inr (Some release2023) \<and>
   Some release2023 \<noteq> None \<and> map Some exampleReleases \<noteq> [] \<and>
   map Some exampleReleases \<noteq> [None] \<and>
   Some release2023 \<in> set (map Some exampleReleases) \<and>
   GetLatestRelease parseRFC3339 [None :: GitHubReleasesResp option] = Inr None \<and>
   GetLatestRelease parseRFC3339 ([] :: GitHubReleasesResp option list) = Inr None"
proof -
  have e: "GetLatestRelease parseRFC3339 (map Some exampleReleases) = Inr (Some release2023)"
    by (simp add: GetLatestRelease_def exampleReleases_def TimeStrToUnix_examples)
  have n: "GetLatestRelease parseRFC3339 [None :: GitHubReleasesResp option] = Inr None"
    "GetLatestRelease parseRFC3339 ([] :: GitHubReleasesResp option list) = Inr None"
    by (simp_all add: GetLatestRelease_def)
  from GetLatestRelease_element [of parseRFC3339 "map Some exampleReleases" "Some release2023"] e n
  show ?thesis by (simp add: exampleReleases_def)
qed

section \<open>Asset lookup\<close>

text \<open>
  C10. \<open>AssertByName\<close> never reads through a nil receiver: it returns for every
  receiver and name, without a panic. On a nil receiver and a non-empty name the error is
  "github api response is empty". The check of the name comes first: an empty name gives
  "release filename is empty" for every receiver, nil or with no assets.
\<close>

theorem AssertByName_nil_safe:
  fixes r :: "'a GitHubReleasesResp_scheme option"
  shows "(\<exists>res. AssertByName r name = Inr res) \<and>
   (name \<noteq> '''' \<longrightarrow>
      AssertByName (None :: 'a GitHubReleasesResp_scheme option) name
        = Inr ('''', Some ''github api response is empty'')) \<and>
   AssertByName r '''' = Inr ('''', Some ''release filename is empty'')"
  by (auto simp: AssertByName_def split: option.splits)

theorem AssertByName_nil_safe_witness:
  "''app.zip'' \<noteq> '''' \<and>
   AssertByName (None :: GitHubReleasesResp option) ''app.zip''
     = Inr ('''', Some ''github api response is empty'') \<and>
   AssertByName (None :: GitHubReleasesResp option) ''''
     = Inr ('''', Some ''release filename is empty'') \<and>
   AssertByName (Some releaseDraft) '''' = Inr ('''', Some ''release filename is empty'')"
  using AssertByName_nil_safe [of "None :: GitHubReleasesResp option" "''app.zip''"]
    AssertByName_nil_safe [of "None :: GitHubReleasesResp option" "''''"]
    AssertByName_nil_safe [of "Some releaseDraft" "''''"]
  by simp

section \<open>Request validation\<close>

text \<open>
  C4. A GET request whose \<open>repo\<close> parameter is missing or empty is answered with the
  envelope written out below, code - 1 and the message "please provide repo name, for
  more detail, visit: " followed by the home page; the handler returns there and calls no
  upstream address.
\<close>

theorem missing_repo_rejected:
  assumes "Method r = ''GET''"
    and "map_of (Query r) ''repo'' = None \<or> map_of (Query r) ''repo'' = Some ''''"
  shows "DownloadLatestGithubRelease parse github r =
           \<lparr>response =
              Body [''code'' \<mapsto> JInt (- 1),
                    ''msg'' \<mapsto> JString
                      ''please provide repo name, for more detail, visit: https://github-latest-release.vercel.app''],
            calls = []\<rparr>"
proof -
  from assms(2) have "Get (Query r) ''repo'' = ''''" by (auto simp: Get_def)
  with assms(1) show ?thesis
    by (simp add: DownloadLatestGithubRelease_def WriteJson_def NewResp_def homePage_def)
qed

text \<open>One request without the parameter and one with \<open>repo=\<close>.\<close>

theorem missing_repo_rejected_witness:
  "map_of (Query \<lparr>Method = ''GET'', Query = [(''name'', ''app.zip'')]\<rparr>) ''repo'' = None \<and>
   DownloadLatestGithubRelease parseRFC3339 exampleGithub
       \<lparr>Method = ''GET'', Query = [(''name'', ''app.zip'')]\<rparr> =
     \<lparr>response =
        Body [''code'' \<mapsto> JInt (- 1),
              ''msg'' \<mapsto> JString
                ''please provide repo name, for more detail, visit: https://github-latest-release.vercel.app''],
      calls = []\<rparr> \<and>
   map_of (Query \<lparr>Method = ''GET'', Query = [(''repo'', ''''), (''name'', ''app.zip'')]\<rparr>) ''repo''
     = Some '''' \<and>
   DownloadLatestGithubRelease parseRFC3339 exampleGithub
       \<lparr>Method = ''GET'', Query = [(''repo'', ''''), (''name'', ''app.zip'')]\<rparr> =
     \<lparr>response =
        Body [''code'' \<mapsto> JInt (- 1),
              ''msg'' \<mapsto> JString
                ''please provide repo name, for more detail, visit: https://github-latest-release.vercel.app''],
      calls = []\<rparr>"
  using missing_repo_rejected
      [of "\<lparr>Method = ''GET'', Query = [(''name'', ''app.zip'')]\<rparr>" parseRFC3339 exampleGithub]
    missing_repo_rejected
      [of "\<lparr>Method = ''GET'', Query = [(''repo'', ''''), (''name'', ''app.zip'')]\<rparr>"
          parseRFC3339 exampleGithub]
  by simp

text \<open>
  C3 (as amended). For a GET request with a non-empty \<open>repo\<close>: when the value does not
  split on "/" into exactly two pieces, which is when it does not hold exactly one "/",
  the answer is the envelope of code - 1 with "please check your repo name(<repo>), for
  more detail, visit: <home page>" and no upstream address is called. When it does split
  into two pieces, empty pieces included, the answer is not that envelope, and the
  upstream address is called once the request for it can be built.
\<close>

theorem malformed_repo_rejected:
  assumes "Method r = ''GET''" and "Get (Query r) ''repo'' = repo" and "repo \<noteq> ''''"
  shows "(length (Split repo CHR ''/'') \<noteq> 2 \<longrightarrow>
            DownloadLatestGithubRelease parse github r =
              \<lparr>response = WriteJson (NewResp (- 1) (''please check your repo name('' @ repo @
                  ''), for more detail, visit: '' @ homePage)),
               calls = []\<rparr>) \<and>
         (length (Split repo CHR ''/'') = 2 \<longrightarrow>
            response (DownloadLatestGithubRelease parse github r) \<noteq>
              WriteJson (NewResp (- 1) (''please check your repo name('' @ repo @
                  ''), for more detail, visit: '' @ homePage)) \<and>
            (github (githubAPI repo) \<noteq> NewRequestError \<longrightarrow>
               calls (DownloadLatestGithubRelease parse github r) = [githubAPI repo])) \<and>
         (length (Split repo CHR ''/'') = 2 \<longleftrightarrow> count_list repo CHR ''/'' = 1)"
proof (intro conjI impI)
  assume "length (Split repo CHR ''/'') \<noteq> 2"
  with assms show "DownloadLatestGithubRelease parse github r =
              \<lparr>response = WriteJson (NewResp (- 1) (''please check your repo name('' @ repo @
                  ''), for more detail, visit: '' @ homePage)),
               calls = []\<rparr>"
    by (simp add: DownloadLatestGithubRelease_def)
next
  assume "length (Split repo CHR ''/'') = 2"
  with assms show "response (DownloadLatestGithubRelease parse github r) \<noteq>
              WriteJson (NewResp (- 1) (''please check your repo name('' @ repo @
                  ''), for more detail, visit: '' @ homePage))"
    by (rule handler_checked_not_malformed)
next
  assume "length (Split repo CHR ''/'') = 2" "github (githubAPI repo) \<noteq> NewRequestError"
  with assms show "calls (DownloadLatestGithubRelease parse github r) = [githubAPI repo]"
    by (rule handler_checked_calls)
next
  show "length (Split repo CHR ''/'') = 2 \<longleftrightarrow> count_list repo CHR ''/'' = 1"
    by (simp add: Split_length)
qed

text \<open>
  The claim as it was stated fails on \<open>owner/\<close> and on \<open>/name\<close>: each splits into two
  pieces, one of them empty, passes the check of line 157 and is sent upstream.
\<close>

theorem empty_segment_counterexample:
  "Split ''owner/'' CHR ''/'' = [''owner'', ''''] \<and>
   DownloadLatestGithubRelease parseRFC3339 exampleGithub (exampleRequest ''owner/'' ''app.zip'') =
     \<lparr>response = Silent, calls = [''https://api.github.com/repos/owner//releases'']\<rparr> \<and>
   Split ''/name'' CHR ''/'' = ['''', ''name''] \<and>
   DownloadLatestGithubRelease parseRFC3339 exampleGithub (exampleRequest ''/name'' ''app.zip'') =
     \<lparr>response = Silent, calls = [''https://api.github.com/repos//name/releases'']\<rparr>"
  by (simp add: DownloadLatestGithubRelease_def exampleRequest_def Get_def githubAPI_def
      example_github_unknown)

theorem malformed_repo_rejected_witness:
  "length (Split ''a/b/c'' CHR ''/'') \<noteq> 2 \<and>
   DownloadLatestGithubRelease parseRFC3339 exampleGithub (exampleRequest ''a/b/c'' ''app.zip'') =
     \<lparr>response = WriteJson (NewResp (- 1)
        ''please check your repo name(a/b/c), for more detail, visit: https://github-latest-release.vercel.app''),
      calls = []\<rparr> \<and>
   length (Split ''owner/'' CHR ''/'') = 2 \<and>
   exampleGithub (githubAPI ''owner/'') \<noteq> NewRequestError \<and>
   response (DownloadLatestGithubRelease parseRFC3339 exampleGithub
       (exampleRequest ''owner/'' ''app.zip'')) \<noteq>
     WriteJson (NewResp (- 1)
        ''please check your repo name(owner/), for more detail, visit: https://github-latest-release.vercel.app'') \<and>
   calls (DownloadLatestGithubRelease parseRFC3339 exampleGithub
       (exampleRequest ''owner/'' ''app.zip'')) = [''https://api.github.com/repos/owner//releases'']"
proof -
  have m: "Method (exampleRequest ''a/b/c'' ''app.zip'') = ''GET''"
    "Get (Query (exampleRequest ''a/b/c'' ''app.zip'')) ''repo'' = ''a/b/c''"
    "Method (exampleRequest ''owner/'' ''app.zip'') = ''GET''"
    "Get (Query (exampleRequest ''owner/'' ''app.zip'')) ''repo'' = ''owner/''"
    by (simp_all add: exampleRequest_def Get_def)
  have n: "''a/b/c'' \<noteq> ''''" "''owner/'' \<noteq> ''''" by simp_all
  have u: "exampleGithub (githubAPI ''owner/'') \<noteq> NewRequestError"
    by (simp add: githubAPI_def example_github_unknown)
  from malformed_repo_rejected [OF m(1) m(2) n(1), of parseRFC3339 exampleGithub]
    malformed_repo_rejected [OF m(3) m(4) n(2), of parseRFC3339 exampleGithub] u
  show ?thesis by (simp add: homePage_def githubAPI_def)
qed

section \<open>Asset resolution and the answer to the client\<close>

text \<open>
  C5. For a selected release and a requested name, \<open>AssertByName\<close> fails with "release
  filename is empty" when the name is empty, with "asset list is empty" when the name is
  not empty and the release has no assets, and with "not found" when the name is not
  empty, there are assets and none of them has that name. Whatever error \<open>AssertByName\<close>
  gives on the selected release of a GET request for a repository with one "/", the
  handler writes the envelope with code - 1 and the message "get repo: <repo>'s asset
  err: <error>".
\<close>

theorem asset_errors_surfaced:
  fixes rel :: "'a GitHubReleasesResp_scheme"
  shows "AssertByName (Some rel) '''' = Inr ('''', Some ''release filename is empty'') \<and>
    (name \<noteq> '''' \<and> Assets rel = [] \<longrightarrow>
       AssertByName (Some rel) name = Inr ('''', Some ''asset list is empty'')) \<and>
    (name \<noteq> '''' \<and> Assets rel \<noteq> [] \<and> (\<forall>a\<in>set (Assets rel). Name a \<noteq> name) \<longrightarrow>
       AssertByName (Some rel) name = Inr ('''', Some ''not found'')) \<and>
    (Method r = ''GET'' \<and> map_of (Query r) ''repo'' = Some repo \<and> repo \<noteq> '''' \<and>
     count_list repo CHR ''/'' = 1 \<and>
     github (''https://api.github.com/repos/'' @ repo @ ''/releases'') = Decoded rs \<and>
     GetLatestRelease parse rs = Inr (Some rel) \<and>
     AssertByName (Some rel) (Get (Query r) ''name'') = Inr (url, Some e) \<longrightarrow>
       DownloadLatestGithubRelease parse github r =
         \<lparr>response =
            Body [''code'' \<mapsto> JInt (- 1),
                  ''msg'' \<mapsto> JString (''get repo: '' @ repo @ '''s asset err: '' @ e)],
          calls = [''https://api.github.com/repos/'' @ repo @ ''/releases'']\<rparr>)"
proof (intro conjI impI)
  show "AssertByName (Some rel) '''' = Inr ('''', Some ''release filename is empty'')"
    by (simp add: AssertByName_def)
next
  assume "name \<noteq> '''' \<and> Assets rel = []"
  then show "AssertByName (Some rel) name = Inr ('''', Some ''asset list is empty'')"
    by (simp add: AssertByName_def)
next
  assume a: "name \<noteq> '''' \<and> Assets rel \<noteq> [] \<and> (\<forall>a\<in>set (Assets rel). Name a \<noteq> name)"
  then have "find (\<lambda>a. Name a = name) (Assets rel) = None" by (simp add: find_None_iff)
  with a show "AssertByName (Some rel) name = Inr ('''', Some ''not found'')"
    by (simp add: AssertByName_find)
next
  assume a: "Method r = ''GET'' \<and> map_of (Query r) ''repo'' = Some repo \<and> repo \<noteq> '''' \<and>
     count_list repo CHR ''/'' = 1 \<and>
     github (''https://api.github.com/repos/'' @ repo @ ''/releases'') = Decoded rs \<and>
     GetLatestRelease parse rs = Inr (Some rel) \<and>
     AssertByName (Some rel) (Get (Query r) ''name'') = Inr (url, Some e)"
  then have "Method r = ''GET''" "Get (Query r) ''repo'' = repo" "repo \<noteq> ''''"
    "length (Split repo CHR ''/'') = 2"
    by (simp_all add: Get_map_of Split_one_slash)
  from handler_checked [OF this, of parse github] a
  show "DownloadLatestGithubRelease parse github r =
         \<lparr>response =
            Body [''code'' \<mapsto> JInt (- 1),
                  ''msg'' \<mapsto> JString (''get repo: '' @ repo @ '''s asset err: '' @ e)],
          calls = [''https://api.github.com/repos/'' @ repo @ ''/releases'']\<rparr>"
    by (simp add: githubAPI_def WriteJson_def NewResp_def)
qed

text \<open>The three errors, each on a release and through the handler.\<close>

theorem asset_errors_surfaced_witness:
  "AssertByName (Some release2023) '''' = Inr ('''', Some ''release filename is empty'') \<and>
   (''app.zip'' \<noteq> '''' \<and> Assets release2020 = []) \<and>
   AssertByName (Some release2020) ''app.zip'' = Inr ('''', Some ''asset list is empty'') \<and>
   (''missing.zip'' \<noteq> '''' \<and> Assets release2023 \<noteq> [] \<and>
      list_all (\<lambda>a. Name a \<noteq> ''missing.zip'') (Assets release2023)) \<and>
   AssertByName (Some release2023) ''missing.zip'' = Inr ('''', Some ''not found'') \<and>
   DownloadLatestGithubRelease parseRFC3339 exampleGithub (exampleRequest ''d4x1/app'' ''missing.zip'') =
     \<lparr>response =
        Body [''code'' \<mapsto> JInt (- 1),
              ''msg'' \<mapsto> JString ''get repo: d4x1/app's asset err: not found''],
      calls = [''https://api.github.com/repos/d4x1/app/releases'']\<rparr> \<and>
   DownloadLatestGithubRelease parseRFC3339 exampleGithub (exampleRequest ''d4x1/app'' '''') =
     \<lparr>response =
        Body [''code'' \<mapsto> JInt (- 1),
              ''msg'' \<mapsto> JString ''get repo: d4x1/app's asset err: release filename is empty''],
      calls = [''https://api.github.com/repos/d4x1/app/releases'']\<rparr> \<and>
   DownloadLatestGithubRelease parseRFC3339 exampleGithub (exampleRequest ''d4x1/old'' ''app.zip'') =
     \<lparr>response =
        Body [''code'' \<mapsto> JInt (- 1),
              ''msg'' \<mapsto> JString ''get repo: d4x1/old's asset err: asset list is empty''],
      calls = [''https://api.github.com/repos/d4x1/old/releases'']\<rparr>"
proof -
  have a: "Assets release2020 = []" "Assets release2023 \<noteq> []"
    "\<forall>a\<in>set (Assets release2023). Name a \<noteq> ''missing.zip''"
    by (simp_all add: release2020_def release2023_def)
  have q: "map_of (Query (exampleRequest repo name)) ''repo'' = Some repo" for repo name
    by (simp add: exampleRequest_def)
  note t1 = asset_errors_surfaced [of release2023 "''missing.zip''"
      "exampleRequest ''d4x1/app'' ''missing.zip''" "''d4x1/app''" exampleGithub
      "map Some exampleReleases" parseRFC3339 "''''" "''not found''"]
  note t2 = asset_errors_surfaced [of release2023 "''missing.zip''"
      "exampleRequest ''d4x1/app'' ''''" "''d4x1/app''" exampleGithub
      "map Some exampleReleases" parseRFC3339 "''''" "''release filename is empty''"]
  note t3 = asset_errors_surfaced [of release2020 "''app.zip''"
      "exampleRequest ''d4x1/old'' ''app.zip''" "''d4x1/old''" exampleGithub
      "[Some release2020]" parseRFC3339 "''''" "''asset list is empty''"]
  from t1 t2 t3 a show ?thesis
    by (simp add: example_latest example_github example_request q list_all_iff)
qed

text \<open>
  C6. For a selected release and a non-empty name, \<open>AssertByName\<close> goes through the
  assets in order and the first asset whose \<open>Name\<close> is equal to the requested name
  decides: its \<open>BrowserDownloadUrl\<close> is returned without an error. Equality is equality
  of the strings, byte for byte. When there is such an asset the handler answers with
  \<open>http.Redirect\<close> to that address and status 307.
\<close>

theorem first_match_redirect:
  fixes rel :: "'a GitHubReleasesResp_scheme"
  assumes "name \<noteq> ''''"
  shows "AssertByName (Some rel) name =
      (case find (\<lambda>a. Name a = name) (Assets rel) of
         Some a \<Rightarrow> Inr (BrowserDownloadUrl a, None)
       | None \<Rightarrow>
           Inr ('''', Some (if Assets rel = [] then ''asset list is empty'' else ''not found''))) \<and>
    (\<forall>i<length (Assets rel).
        Name (Assets rel ! i) = name \<and> (\<forall>j<i. Name (Assets rel ! j) \<noteq> name) \<longrightarrow>
        AssertByName (Some rel) name = Inr (BrowserDownloadUrl (Assets rel ! i), None)) \<and>
    (Method r = ''GET'' \<and> Get (Query r) ''repo'' = repo \<and> repo \<noteq> '''' \<and>
     length (Split repo CHR ''/'') = 2 \<and> github (githubAPI repo) = Decoded rs \<and>
     GetLatestRelease parse rs = Inr (Some rel) \<and> Get (Query r) ''name'' = name \<and>
     find (\<lambda>a. Name a = name) (Assets rel) = Some a \<longrightarrow>
       DownloadLatestGithubRelease parse github r =
         \<lparr>response = Redirect (BrowserDownloadUrl a) 307, calls = [githubAPI repo]\<rparr>)"
proof (intro conjI allI impI)
  show "AssertByName (Some rel) name =
      (case find (\<lambda>a. Name a = name) (Assets rel) of
         Some a \<Rightarrow> Inr (BrowserDownloadUrl a, None)
       | None \<Rightarrow>
           Inr ('''', Some (if Assets rel = [] then ''asset list is empty'' else ''not found'')))"
    using assms by (rule AssertByName_find)
next
  fix i
  assume "i < length (Assets rel)"
    and "Name (Assets rel ! i) = name \<and> (\<forall>j<i. Name (Assets rel ! j) \<noteq> name)"
  then have "find (\<lambda>a. Name a = name) (Assets rel) = Some (Assets rel ! i)"
    by (auto simp: find_Some_iff)
  then show "AssertByName (Some rel) name = Inr (BrowserDownloadUrl (Assets rel ! i), None)"
    using assms by (simp add: AssertByName_find)
next
  assume a: "Method r = ''GET'' \<and> Get (Query r) ''repo'' = repo \<and> repo \<noteq> '''' \<and>
     length (Split repo CHR ''/'') = 2 \<and> github (githubAPI repo) = Decoded rs \<and>
     GetLatestRelease parse rs = Inr (Some rel) \<and> Get (Query r) ''name'' = name \<and>
     find (\<lambda>a. Name a = name) (Assets rel) = Some a"
  then have "Method r = ''GET''" "Get (Query r) ''repo'' = repo" "repo \<noteq> ''''"
    "length (Split repo CHR ''/'') = 2" by simp_all
  from handler_checked [OF this, of parse github] a assms
  show "DownloadLatestGithubRelease parse github r =
         \<lparr>response = Redirect (BrowserDownloadUrl a) 307, calls = [githubAPI repo]\<rparr>"
    by (simp add: AssertByName_find)
qed

text \<open>
  The latest example release has an asset \<open>App.zip\<close> before two assets \<open>app.zip\<close>: the
  request for \<open>app.zip\<close> is redirected to the first of the two.
\<close>

theorem first_match_redirect_witness:
  "''app.zip'' \<noteq> '''' \<and>
   find (\<lambda>a. Name a = ''app.zip'') (Assets release2023) =
     Some \<lparr>Name = ''app.zip'', BrowserDownloadUrl = ''https://x/app.zip''\<rparr> \<and>
   Name (Assets release2023 ! 0) = ''App.zip'' \<and>
   Name (Assets release2023 ! 1) = ''app.zip'' \<and>
   Name (Assets release2023 ! 2) = ''app.zip'' \<and>
   AssertByName (Some release2023) ''app.zip'' = Inr (''https://x/app.zip'', None) \<and>
   DownloadLatestGithubRelease parseRFC3339 exampleGithub (exampleRequest ''d4x1/app'' ''app.zip'') =
     \<lparr>response = Redirect ''https://x/app.zip'' 307,
      calls = [''https://api.github.com/repos/d4x1/app/releases'']\<rparr>"
proof -
  have n: "''app.zip'' \<noteq> ''''" by simp
  have f: "find (\<lambda>a. Name a = ''app.zip'') (Assets release2023) =
     Some \<lparr>Name = ''app.zip'', BrowserDownloadUrl = ''https://x/app.zip''\<rparr>"
    "Name (Assets release2023 ! 0) = ''App.zip''"
    "Name (Assets release2023 ! 1) = ''app.zip''"
    "Name (Assets release2023 ! 2) = ''app.zip''"
    by (simp_all add: release2023_def)
  from first_match_redirect [OF n, of release2023
      "exampleRequest ''d4x1/app'' ''app.zip''" "''d4x1/app''" exampleGithub
      "map Some exampleReleases" parseRFC3339
      "\<lparr>Name = ''app.zip'', BrowserDownloadUrl = ''https://x/app.zip''\<rparr>"] f
  show ?thesis
    by (simp add: example_latest example_github example_request example_split githubAPI_def)
qed

text \<open>
  C7. When the decoded upstream list is empty, \<open>GetLatestRelease\<close> returns nil and the
  handler writes the envelope with code - 1 and the message "repo: <repo> has no release
  jet", for a GET request for a repository with one "/".
\<close>

theorem no_release_envelope:
  fixes github :: "string \<Rightarrow> 'a GitHubReleasesResp_scheme upstream"
  assumes "Method r = ''GET''" and "map_of (Query r) ''repo'' = Some repo" and "repo \<noteq> ''''"
    and "count_list repo CHR ''/'' = 1"
    and "github (''https://api.github.com/repos/'' @ repo @ ''/releases'') = Decoded []"
  shows "GetLatestRelease parse ([] :: 'a GitHubReleasesResp_scheme option list) = Inr None \<and>
         DownloadLatestGithubRelease parse github r =
           \<lparr>response =
              Body [''code'' \<mapsto> JInt (- 1),
                    ''msg'' \<mapsto> JString (''repo: '' @ repo @ '' has no release jet'')],
            calls = [''https://api.github.com/repos/'' @ repo @ ''/releases'']\<rparr>"
proof -
  have nil: "GetLatestRelease parse ([] :: 'a GitHubReleasesResp_scheme option list) = Inr None"
    by (simp add: GetLatestRelease_def)
  from assms have c: "Method r = ''GET''" "Get (Query r) ''repo'' = repo" "repo \<noteq> ''''"
    "length (Split repo CHR ''/'') = 2"
    by (simp_all add: Get_map_of Split_one_slash)
  from handler_checked [OF c, of parse github] assms(5) nil show ?thesis
    by (simp add: githubAPI_def WriteJson_def NewResp_def)
qed

theorem no_release_envelope_witness:
  "map_of (Query (exampleRequest ''d4x1/none'' ''app.zip'')) ''repo'' = Some ''d4x1/none'' \<and>
   count_list ''d4x1/none'' CHR ''/'' = 1 \<and>
   exampleGithub ''https://api.github.com/repos/d4x1/none/releases'' = Decoded [] \<and>
   DownloadLatestGithubRelease parseRFC3339 exampleGithub (exampleRequest ''d4x1/none'' ''app.zip'') =
     \<lparr>response =
        Body [''code'' \<mapsto> JInt (- 1),
              ''msg'' \<mapsto> JString ''repo: d4x1/none has no release jet''],
      calls = [''https://api.github.com/repos/d4x1/none/releases'']\<rparr>"
proof -
  have q: "map_of (Query (exampleRequest ''d4x1/none'' ''app.zip'')) ''repo'' = Some ''d4x1/none''"
    by (simp add: exampleRequest_def)
  from no_release_envelope [of "exampleRequest ''d4x1/none'' ''app.zip''" "''d4x1/none''"
      exampleGithub parseRFC3339] q
  show ?thesis by (simp add: example_github example_request)
qed

section \<open>What the handler reads\<close>

text \<open>
  The outcome depends on the request only through the method and the first values of
  \<open>repo\<close> and \<open>name\<close>, and on the upstream only through its answer for the address of
  that repository.
\<close>

lemma handler_reads:
  assumes "Method r1 = Method r2"
    and "Get (Query r1) ''repo'' = Get (Query r2) ''repo''"
    and "Get (Query r1) ''name'' = Get (Query r2) ''name''"
    and "github1 (githubAPI (Get (Query r1) ''repo'')) = github2 (githubAPI (Get (Query r2) ''repo''))"
  shows "DownloadLatestGithubRelease parse github1 r1 = DownloadLatestGithubRelease parse github2 r2"
  using assms
  by (simp add: DownloadLatestGithubRelease_def Let_def
      cong: upstream.case_cong sum.case_cong option.case_cong prod.case_cong if_cong)

text \<open>
  Two requests that differ in everything but these, against two upstreams that differ
  elsewhere.
\<close>

lemma handler_reads_example:
  "exampleRequest ''d4x1/app'' ''app.zip'' \<noteq> otherRequest \<and>
   exampleGithub \<noteq> otherGithub \<and>
   DownloadLatestGithubRelease parseRFC3339 exampleGithub (exampleRequest ''d4x1/app'' ''app.zip'') =
     DownloadLatestGithubRelease parseRFC3339 otherGithub otherRequest \<and>
   DownloadLatestGithubRelease parseRFC3339 otherGithub otherRequest =
     \<lparr>response = Redirect ''https://x/app.zip'' 307,
      calls = [''https://api.github.com/repos/d4x1/app/releases'']\<rparr>"
proof -
  have d: "exampleRequest ''d4x1/app'' ''app.zip'' \<noteq> otherRequest"
    by (simp add: exampleRequest_def otherRequest_def)
  have "exampleGithub ''https://api.github.com/repos/d4x1/none/releases'' \<noteq>
      otherGithub ''https://api.github.com/repos/d4x1/none/releases''"
    by (simp add: example_github)
  then have g: "exampleGithub \<noteq> otherGithub" by auto
  have v: "DownloadLatestGithubRelease parseRFC3339 exampleGithub
      (exampleRequest ''d4x1/app'' ''app.zip'') =
     \<lparr>response = Redirect ''https://x/app.zip'' 307,
      calls = [''https://api.github.com/repos/d4x1/app/releases'']\<rparr>"
    by (simp add: handler_checked [of _ "''d4x1/app''"] example_latest example_github
        example_request example_split githubAPI_def AssertByName_def release2023_def)
  from handler_reads [of "exampleRequest ''d4x1/app'' ''app.zip''" otherRequest
      exampleGithub otherGithub parseRFC3339] d g v
  show ?thesis by (simp add: example_github example_request githubAPI_def)
qed

end
